theory Spec2Isabelle
  imports Main
begin

section \<open>Documents and errors\<close>

text \<open>
  A \<open>Document\<close> of the pipeline carries its text (\<open>page_content\<close>) and a metadata
  dictionary. Metadata values are modelled as text; a missing key is \<open>None\<close>.
\<close>

record document =
  page_content :: string
  metadata :: "string \<rightharpoonup> string"

text \<open>
  Every \<open>raise\<close> of the source is a value. The core raises \<open>ValueError\<close> for a
  violated argument precondition (the specification's \<open>InvalidInput\<close>, and its
  \<open>NotInitialized\<close> for the two accessors of the vector store) and \<open>RuntimeError\<close>
  around a failed loader. The constructor argument names the raise site; the
  message of the source is given beside it.
\<close>

datatype invalid =
    EmptyUrl                      \<comment> \<open>Parameter 'url' must be a non-empty string.\<close>
  | UnsupportedScheme string      \<comment> \<open>Unsupported URL scheme ...\<close>
  | EmptyDirectory                \<comment> \<open>Parameter 'directory' must be a non-empty string or Path.\<close>
  | DirectoryMissing string       \<comment> \<open>Directory does not exist: ...\<close>
  | NotADirectory string          \<comment> \<open>Provided path is not a directory: ...\<close>
  | EmptyFilePath                 \<comment> \<open>Parameter 'file_path' must be a non-empty string or Path.\<close>
  | FileMissing string            \<comment> \<open>File does not exist: ...\<close>
  | NotAFile string               \<comment> \<open>Provided path is not a file: ...\<close>
  | UnsupportedTxtSuffix string   \<comment> \<open>Unsupported file type for load_from_txt: ... (expected '.txt').\<close>
  | EmptySources                  \<comment> \<open>Parameter 'sources' must be a non-empty sequence.\<close>
  | SourceMissing string          \<comment> \<open>Source path does not exist: ...\<close>
  | UnsupportedFileType string string  \<comment> \<open>Unsupported file type: suffix (source: path)\<close>
  | EmptyDocumentList             \<comment> \<open>Cannot create vector store with an empty document list.\<close>
  | NotInitialized                \<comment> \<open>Vector store is not initialized. Call 'create_retriever' first.\<close>
  | GraphError string             \<comment> \<open>raised by the graph library while wiring or compiling\<close>

datatype load_site = UrlLoad string | PdfDirLoad string | TxtLoad string

text \<open>
  An exception raised inside an external collaborator (embedding backend, retriever,
  language model, agent, document loader) is an opaque description of type
  \<open>string\<close>; when the core lets it propagate it is \<open>External\<close>, when a loader wraps
  it (\<open>raise RuntimeError(...) from exc\<close>) it is the cause of a \<open>RuntimeError\<close>.
\<close>

datatype error =
    ValueError invalid
  | RuntimeError load_site string
  | AttributeError string
  | ValidationError string
  | GraphRecursionError
  | External string

definition lift_external :: "string + 'a \<Rightarrow> error + 'a" where
  "lift_external r = (case r of Inl e \<Rightarrow> Inl (External e) | Inr v \<Rightarrow> Inr v)"

section \<open>Vector store (vectorstore.py)\<close>

text \<open>
  The FAISS index is an abstract value of type \<open>'i\<close>. The backend is the pair of
  collaborator calls the class makes: \<open>FAISS.from_documents(documents, embedding)\<close>
  and the retriever's \<open>get_relevant_documents(query)\<close>, which searches the index
  with the result count currently stored in \<open>search_kwargs["k"]\<close>.
\<close>

record 'i backend =
  from_documents :: "document list \<Rightarrow> string + 'i"
  relevant_documents :: "'i \<Rightarrow> string \<Rightarrow> int \<Rightarrow> string + document list"

text \<open>
  The retriever object made by \<open>as_retriever(search_kwargs={"k": k})\<close>: the index it
  searches and its stored result count.
\<close>

record 'i retriever_obj =
  index :: 'i
  search_k :: int

record 'i vector_store =
  vectorstore :: "'i option"
  retriever :: "'i retriever_obj option"

definition VectorStore_init :: "'i vector_store" where
  "VectorStore_init = \<lparr>vectorstore = None, retriever = None\<rparr>"

text \<open>
  \<open>create_retriever\<close> assigns both fields only after the index was built; an
  exception before that leaves the object as it was.
\<close>

definition create_retriever ::
  "'i backend \<Rightarrow> document list \<Rightarrow> int \<Rightarrow> 'i vector_store \<Rightarrow> (error + unit) \<times> 'i vector_store" where
  "create_retriever be documents k vs =
     (if documents = [] then (Inl (ValueError EmptyDocumentList), vs)
      else case from_documents be documents of
             Inl e \<Rightarrow> (Inl (External e), vs)
           | Inr i \<Rightarrow>
               (Inr (), vs\<lparr>vectorstore := Some i,
                          retriever := Some \<lparr>index = i, search_k = k\<rparr>\<rparr>))"

definition get_retriever :: "'i vector_store \<Rightarrow> error + 'i retriever_obj" where
  "get_retriever vs =
     (case retriever vs of
        None \<Rightarrow> Inl (ValueError NotInitialized)
      | Some r \<Rightarrow> Inr r)"

text \<open>
  \<open>retrieve\<close> writes \<open>k\<close> into the retriever's \<open>search_kwargs\<close> and then searches; the
  write stays in the object whether or not the search raises.
\<close>

definition retrieve ::
  "'i backend \<Rightarrow> string \<Rightarrow> int \<Rightarrow> 'i vector_store \<Rightarrow> (error + document list) \<times> 'i vector_store" where
  "retrieve be q k vs =
     (case retriever vs of
        None \<Rightarrow> (Inl (ValueError NotInitialized), vs)
      | Some r \<Rightarrow>
          (let r' = r\<lparr>search_k := k\<rparr>;
               vs' = vs\<lparr>retriever := Some r'\<rparr>
           in (lift_external (relevant_documents be (index r') q (search_k r')), vs')))"

text \<open>The stored default result count of the store's retriever, if there is one.\<close>

definition stored_k :: "'i vector_store \<Rightarrow> int option" where
  "stored_k vs = map_option search_k (retriever vs)"

text \<open>
  A sequence of \<open>create_retriever\<close> calls on one instance, with the outcome of each.
\<close>

fun create_calls ::
  "'i backend \<Rightarrow> (document list \<times> int) list \<Rightarrow> 'i vector_store \<Rightarrow> (error + unit) list \<times> 'i vector_store" where
  "create_calls be [] vs = ([], vs)"
| "create_calls be ((documents, k) # cs) vs =
     (case create_retriever be documents k vs of
        (r, vs') \<Rightarrow> (case create_calls be cs vs' of (rs, vs'') \<Rightarrow> (r # rs, vs'')))"

text \<open>
  A concrete backend for evaluation: the index is the document list itself, and a
  search returns its first \<open>k\<close> documents.
\<close>

definition list_backend :: "(document list) backend" where
  "list_backend = \<lparr>from_documents = (\<lambda>ds. Inr ds),
                   relevant_documents = (\<lambda>ds q k. Inr (take (nat k) ds))\<rparr>"

definition doc_paris :: document where
  "doc_paris = \<lparr>page_content = ''Paris is the capital of France.'', metadata = Map.empty\<rparr>"

section \<open>Workflow state (state.py)\<close>

record rag_state =
  query :: string
  retrieved_docs :: "document list"
  response :: string

text \<open>
  The constructor call \<open>RAGState(query=..., retrieved_docs=..., response=...)\<close>: an
  argument that is left out takes the default of the class, \<open>[]\<close> and \<open>""\<close>.
\<close>

definition RAGState :: "string \<Rightarrow> document list option \<Rightarrow> string option \<Rightarrow> rag_state" where
  "RAGState q docs resp =
     \<lparr>query = q,
      retrieved_docs = (case docs of None \<Rightarrow> [] | Some ds \<Rightarrow> ds),
      response = (case resp of None \<Rightarrow> [] | Some r \<Rightarrow> r)\<rparr>"

text \<open>
  Reading an attribute of a state object by name. The model has the three declared
  fields; any other name raises \<open>AttributeError\<close>.
\<close>

datatype attr = AText string | ADocs "document list"

definition getattr_state :: "rag_state \<Rightarrow> string \<Rightarrow> error + attr" where
  "getattr_state s field =
     (if field = ''query'' then Inr (AText (query s))
      else if field = ''retrieved_docs'' then Inr (ADocs (retrieved_docs s))
      else if field = ''response'' then Inr (AText (response s))
      else Inl (AttributeError field))"

section \<open>Strings\<close>

definition nl :: string where
  "nl = [CHR 0x0A]"

text \<open>\<open>sep.join(parts)\<close>\<close>

fun join_str :: "string \<Rightarrow> string list \<Rightarrow> string" where
  "join_str sep [] = []"
| "join_str sep [x] = x"
| "join_str sep (x # y # ys) = x @ sep @ join_str sep (y # ys)"

text \<open>\<open>a or b\<close> on an optional text: \<open>None\<close> and the empty string are falsy.\<close>

definition py_or :: "string option \<Rightarrow> string \<Rightarrow> string" where
  "py_or a b = (case a of None \<Rightarrow> b | Some t \<Rightarrow> if t = [] then b else t)"

text \<open>Decimal rendering of a natural number, as an f-string renders an \<open>int\<close>.\<close>

definition digit_char :: "nat \<Rightarrow> char" where
  "digit_char n = ''0123456789'' ! (n mod 10)"

fun str_nat :: "nat \<Rightarrow> string" where
  "str_nat n = (if n < 10 then [digit_char n] else str_nat (n div 10) @ [digit_char (n mod 10)])"

text \<open>\<open>str.lower()\<close> on ASCII text.\<close>

definition lower_char :: "char \<Rightarrow> char" where
  "lower_char c =
     (case map_of (zip ''ABCDEFGHIJKLMNOPQRSTUVWXYZ'' ''abcdefghijklmnopqrstuvwxyz'') c of
        None \<Rightarrow> c
      | Some l \<Rightarrow> l)"

definition lower :: "string \<Rightarrow> string" where
  "lower s = map lower_char s"

section \<open>Single-shot nodes (nodes/nodes.py)\<close>

text \<open>
  The retriever and the language model are collaborators: \<open>retriever.invoke(query)\<close>
  and \<open>llm.invoke(prompt).content\<close> either return or raise.
\<close>

definition nodes_retrieve_docs ::
  "(string \<Rightarrow> string + document list) \<Rightarrow> rag_state \<Rightarrow> error + rag_state" where
  "nodes_retrieve_docs retr s =
     (case retr (query s) of
        Inl e \<Rightarrow> Inl (External e)
      | Inr docs \<Rightarrow> Inr (RAGState (query s) (Some docs) None))"

definition build_prompt :: "string \<Rightarrow> string \<Rightarrow> string" where
  "build_prompt ctx q =
     nl @ ''        Answer the query based on the context provided'' @ nl
     @ ''        '' @ nl
     @ ''        Context: '' @ nl
     @ ''            '' @ ctx @ nl
     @ ''            '' @ nl
     @ ''        query: '' @ q @ nl
     @ ''        '' @ nl
     @ ''        ''"

text \<open>
  \<open>generate_answer\<close> of nodes.py builds the prompt, calls the model, and then builds
  the new state from \<open>state.query\<close>, \<open>state.documents\<close> and \<open>response.content\<close>, its
  keyword arguments evaluated in this order.
\<close>

definition nodes_generate_answer ::
  "(string \<Rightarrow> string + string) \<Rightarrow> rag_state \<Rightarrow> error + rag_state" where
  "nodes_generate_answer llm s =
     (let ctx = join_str ''/n/n'' (map page_content (retrieved_docs s));
          prompt = build_prompt ctx (query s)
      in case llm prompt of
           Inl e \<Rightarrow> Inl (External e)
         | Inr answer \<Rightarrow>
             (case getattr_state s ''documents'' of
                Inl e \<Rightarrow> Inl e
              | Inr (ADocs docs) \<Rightarrow> Inr (RAGState (query s) (Some docs) (Some answer))
              | Inr (AText t) \<Rightarrow> Inl (ValidationError ''retrieved_docs'')))"

section \<open>Agentic nodes (nodes/reactnode.py)\<close>

definition react_retrieve_docs ::
  "(string \<Rightarrow> string + document list) \<Rightarrow> rag_state \<Rightarrow> error + rag_state" where
  "react_retrieve_docs retr s =
     (case retr (query s) of
        Inl e \<Rightarrow> Inl (External e)
      | Inr docs \<Rightarrow> Inr (RAGState (query s) (Some docs) (Some (response s))))"

text \<open>
  The retriever tool. \<open>title\<close> is \<open>meta.get("title") or meta.get("source") or
  f"doc_{i}"\<close>; the loop runs over \<open>enumerate(docs[:8], start=1)\<close> and appends one
  block per document.
\<close>

definition doc_title :: "nat \<Rightarrow> document \<Rightarrow> string" where
  "doc_title i d =
     py_or (metadata d ''title'') (py_or (metadata d ''source'') (''doc_'' @ str_nat i))"

definition doc_block :: "nat \<Rightarrow> document \<Rightarrow> string" where
  "doc_block i d = ''['' @ str_nat i @ ''] '' @ doc_title i d @ nl @ page_content d"

fun merge_loop :: "nat \<Rightarrow> document list \<Rightarrow> string list \<Rightarrow> string list" where
  "merge_loop i [] merged_chunks = merged_chunks"
| "merge_loop i (d # ds) merged_chunks = merge_loop (Suc i) ds (merged_chunks @ [doc_block i d])"

definition retriever_tool_fn ::
  "(string \<Rightarrow> string + document list) \<Rightarrow> string \<Rightarrow> error + string" where
  "retriever_tool_fn retr q =
     (case retr q of
        Inl e \<Rightarrow> Inl (External e)
      | Inr docs \<Rightarrow>
          Inr (if docs = [] then ''No documents found.''
               else join_str (nl @ nl) (merge_loop 1 (take 8 docs) [])))"

record tool =
  name :: string
  func :: "string \<Rightarrow> error + string"
  description :: string

definition build_tools ::
  "(string \<Rightarrow> string + document list) \<Rightarrow> (string \<Rightarrow> string + string) \<Rightarrow> tool list" where
  "build_tools retr wiki =
     [\<lparr>name = ''retriever'', func = retriever_tool_fn retr,
       description = ''Fetch passages from the indexed vector store.''\<rparr>,
      \<lparr>name = ''wikipedia'', func = (\<lambda>q. lift_external (wiki q)),
       description = ''Search Wikipedia for general knowledge.''\<rparr>]"

definition system_prompt :: string where
  "system_prompt =
     ''You are a helpful RAG agent. ''
     @ ''Prefer the 'retriever' tool for questions about the user's indexed documents. ''
     @ ''Use 'wikipedia' only for general world knowledge. ''
     @ ''Think step by step with tools, but return only the final helpful answer to the user.''"

text \<open>
  What the agent's \<open>invoke\<close> hands back: a dictionary, with or without a
  \<open>"messages"\<close> entry, or some other object, which the node then takes as the only
  message. A message's \<open>content\<close> attribute is \<open>None\<close> when it is missing.
\<close>

datatype message = Message (content: "string option")

datatype agent_result = ResultDict "message list option" | ResultOther message

type_synonym agent = "string \<Rightarrow> string + agent_result"

definition result_messages :: "agent_result \<Rightarrow> message list" where
  "result_messages r =
     (case r of
        ResultDict None \<Rightarrow> []
      | ResultDict (Some ms) \<Rightarrow> ms
      | ResultOther m \<Rightarrow> [m])"

text \<open>
  The node object keeps the agent it built on first use. \<open>create_agent\<close> is the
  library call that makes an agent from the tools and the system prompt.
\<close>

record react_nodes =
  agent_of :: "agent option"

definition get_agent ::
  "(tool list \<Rightarrow> string \<Rightarrow> agent) \<Rightarrow> (string \<Rightarrow> string + document list) \<Rightarrow>
   (string \<Rightarrow> string + string) \<Rightarrow> react_nodes \<Rightarrow> agent" where
  "get_agent create_agent retr wiki self =
     (case agent_of self of
        None \<Rightarrow> create_agent (build_tools retr wiki) system_prompt
      | Some a \<Rightarrow> a)"

definition react_generate_answer ::
  "(tool list \<Rightarrow> string \<Rightarrow> agent) \<Rightarrow> (string \<Rightarrow> string + document list) \<Rightarrow>
   (string \<Rightarrow> string + string) \<Rightarrow> react_nodes \<Rightarrow> rag_state \<Rightarrow> (error + rag_state) \<times> react_nodes" where
  "react_generate_answer create_agent retr wiki self s =
     (let a = get_agent create_agent retr wiki self;
          self' = self\<lparr>agent_of := Some a\<rparr>
      in case a (query s) of
           Inl e \<Rightarrow> (Inl (External e), self')
         | Inr result \<Rightarrow>
             (let messages = result_messages result;
                  answer = (if messages \<noteq> [] then content (last messages) else None)
              in (Inr (RAGState (query s) (Some (retrieved_docs s))
                        (Some (py_or answer ''Could not generate response.''))),
                  self')))"

text \<open>
  The retriever tool's result in the specification's words: the blocks of the first
  eight results at most, block \<open>i\<close> (counted from 1) being \<open>[i] title\<close>, a line
  break and the content of the \<open>i\<close>-th result.
\<close>

definition tool_blocks_spec :: "document list \<Rightarrow> string list" where
  "tool_blocks_spec docs =
     map (\<lambda>i. ''['' @ str_nat (Suc i) @ ''] '' @ doc_title (Suc i) (docs ! i)
                @ nl @ page_content (docs ! i))
       [0..<min 8 (length docs)]"

definition doc_tokyo :: document where
  "doc_tokyo = \<lparr>page_content = ''Tokyo is the capital of Japan.'',
                metadata = [''title'' \<mapsto> ''Japan'']\<rparr>"

section \<open>Graph builder (graph_builder/graph_builder.py)\<close>

text \<open>
  The part of the graph library the builder uses. A \<open>StateGraph\<close> under construction
  is its named nodes, in insertion order, and its edges; \<open>START\<close> and \<open>END\<close> are the
  library's two reserved node names.
\<close>

type_synonym node_fn = "rag_state \<Rightarrow> error + rag_state"

record state_graph =
  graph_nodes :: "(string \<times> node_fn) list"
  graph_edges :: "(string \<times> string) list"

definition START :: string where
  "START = ''__start__''"

definition END :: string where
  "END = ''__end__''"

definition StateGraph :: state_graph where
  "StateGraph = \<lparr>graph_nodes = [], graph_edges = []\<rparr>"

text \<open>
  \<open>add_node\<close> with a name that is already present: the library raises \<open>ValueError\<close>
  (\<open>Reject\<close>). The two other ways a node table could treat a second entry of one
  name, replacing the function or keeping the first, are allowed for as well, so that
  nothing proved below rests on which of them the library takes.
\<close>

datatype dup_policy = Reject | Replace | KeepFirst

definition add_node :: "dup_policy \<Rightarrow> string \<Rightarrow> node_fn \<Rightarrow> state_graph \<Rightarrow> error + state_graph" where
  "add_node pol node f g =
     (if map_of (graph_nodes g) node = None
      then Inr (g\<lparr>graph_nodes := graph_nodes g @ [(node, f)]\<rparr>)
      else case pol of
             Reject \<Rightarrow> Inl (ValueError (GraphError ''Node already present''))
           | Replace \<Rightarrow>
               Inr (g\<lparr>graph_nodes :=
                        map (\<lambda>(n, h). if n = node then (n, f) else (n, h)) (graph_nodes g)\<rparr>)
           | KeepFirst \<Rightarrow> Inr g)"

definition add_edge :: "string \<Rightarrow> string \<Rightarrow> state_graph \<Rightarrow> state_graph" where
  "add_edge start_key end_key g = g\<lparr>graph_edges := graph_edges g @ [(start_key, end_key)]\<rparr>"

definition set_entry_point :: "string \<Rightarrow> state_graph \<Rightarrow> state_graph" where
  "set_entry_point key g = add_edge START key g"

text \<open>
  \<open>compile\<close> validates the wiring: every edge starts at \<open>START\<close> or a node, some edge
  starts at \<open>START\<close>, and every edge ends at \<open>END\<close> or a node.
\<close>

definition compile :: "state_graph \<Rightarrow> error + state_graph" where
  "compile g =
     (if \<not> list_all (\<lambda>(a, b). a = START \<or> map_of (graph_nodes g) a \<noteq> None) (graph_edges g)
      then Inl (ValueError (GraphError ''Found edge starting at unknown node''))
      else if \<not> list_ex (\<lambda>(a, b). a = START) (graph_edges g)
      then Inl (ValueError (GraphError ''Graph must have an entrypoint''))
      else if \<not> list_all (\<lambda>(a, b). b = END \<or> map_of (graph_nodes g) b \<noteq> None) (graph_edges g)
      then Inl (ValueError (GraphError ''Found edge ending at unknown node''))
      else Inr g)"

text \<open>
  Running a compiled graph whose nodes have one successor each: the node's function
  is applied to the state and the run moves along the node's edge until it reaches
  \<open>END\<close>. A failing node aborts the run. The library stops a run after its recursion
  limit of 25 steps; a node with several successors (parallel branches) is outside
  this model.
\<close>

definition successors :: "state_graph \<Rightarrow> string \<Rightarrow> string list" where
  "successors g a = map snd (filter (\<lambda>(x, y). x = a) (graph_edges g))"

fun run_from :: "nat \<Rightarrow> state_graph \<Rightarrow> string \<Rightarrow> rag_state \<Rightarrow> error + rag_state" where
  "run_from limit g cur s =
     (if cur = END then Inr s
      else case limit of
             0 \<Rightarrow> Inl GraphRecursionError
           | Suc n \<Rightarrow>
               (case map_of (graph_nodes g) cur of
                  None \<Rightarrow> Inl (ValueError (GraphError ''unknown node''))
                | Some f \<Rightarrow>
                    (case f s of
                       Inl e \<Rightarrow> Inl e
                     | Inr s' \<Rightarrow>
                         (case successors g cur of
                            [] \<Rightarrow> Inr s'
                          | [nxt] \<Rightarrow> run_from n g nxt s'
                          | _ \<Rightarrow> Inl (ValueError (GraphError ''parallel branches''))))))"

definition invoke :: "state_graph \<Rightarrow> rag_state \<Rightarrow> error + rag_state" where
  "invoke g s =
     (case successors g START of
        [first] \<Rightarrow> run_from 25 g first s
      | _ \<Rightarrow> Inl (ValueError (GraphError ''parallel branches'')))"

text \<open>
  \<open>GraphBuilder.__init__\<close> stores the class \<open>RAGNodes\<close> itself in \<open>self.nodes\<close>; the two
  node functions the builder registers are that class's \<open>retrieve_docs\<close> and
  \<open>generate_answer\<close>.
\<close>

record node_class =
  retrieve_docs :: node_fn
  generate_answer :: node_fn

record graph_builder =
  nodes :: node_class
  graph :: "state_graph option"

definition GraphBuilder :: "node_class \<Rightarrow> graph_builder" where
  "GraphBuilder cls = \<lparr>nodes = cls, graph = None\<rparr>"

definition build :: "dup_policy \<Rightarrow> graph_builder \<Rightarrow> (error + state_graph) \<times> graph_builder" where
  "build pol self =
     (case add_node pol ''retriever'' (retrieve_docs (nodes self)) StateGraph of
        Inl e \<Rightarrow> (Inl e, self)
      | Inr b1 \<Rightarrow>
          (case add_node pol ''retriever'' (generate_answer (nodes self)) b1 of
             Inl e \<Rightarrow> (Inl e, self)
           | Inr b2 \<Rightarrow>
               (let b3 = set_entry_point ''retriever'' b2;
                    b4 = add_edge ''retriever'' ''responder'' b3;
                    b5 = add_edge ''responder'' END b4
                in case compile b5 of
                     Inl e \<Rightarrow> (Inl e, self)
                   | Inr g \<Rightarrow> (Inr g, self\<lparr>graph := Some g\<rparr>))))"

definition run :: "dup_policy \<Rightarrow> graph_builder \<Rightarrow> string \<Rightarrow> (error + rag_state) \<times> graph_builder" where
  "run pol self q =
     (case graph self of
        Some g \<Rightarrow> (invoke g (RAGState q None None), self)
      | None \<Rightarrow>
          (case build pol self of
             (Inl e, self') \<Rightarrow> (Inl e, self')
           | (Inr g, self') \<Rightarrow> (invoke g (RAGState q None None), self')))"

section \<open>Document processor (document_ingestion/document_processor.py)\<close>

text \<open>
  The world the loaders touch: the three path tests of \<open>pathlib\<close> and the three
  library loaders, each of which returns documents or raises. Paths are POSIX paths
  given as text.
\<close>

record world =
  path_exists :: "string \<Rightarrow> bool"
  path_is_dir :: "string \<Rightarrow> bool"
  path_is_file :: "string \<Rightarrow> bool"
  web_load :: "string \<Rightarrow> string + document list"
  pdf_dir_load :: "string \<Rightarrow> string + document list"
  text_load :: "string \<Rightarrow> string + document list"

text \<open>
  Every function returns, beside its result, the accesses it made, in order: the
  path tests and the loads (network fetch, PDF extraction, file read).
\<close>

datatype access =
    Exists string | IsDir string | IsFile string
  | FetchUrl string | ReadPdfDir string | ReadText string

definition is_path_test :: "access \<Rightarrow> bool" where
  "is_path_test a = (case a of Exists p \<Rightarrow> True | IsDir p \<Rightarrow> True | IsFile p \<Rightarrow> True | _ \<Rightarrow> False)"

text \<open>
  \<open>Path(p).suffix\<close>: the final component of the path is what follows the last
  separator, empty and \<open>.\<close> components dropped; its suffix starts at its last dot,
  unless that dot is its first or its last character.
\<close>

fun split_on :: "char \<Rightarrow> string \<Rightarrow> string list" where
  "split_on c [] = [[]]"
| "split_on c (x # xs) =
     (if x = c then [] # split_on c xs
      else case split_on c xs of
             [] \<Rightarrow> [[x]]
           | w # ws \<Rightarrow> (x # w) # ws)"

definition path_name :: "string \<Rightarrow> string" where
  "path_name p =
     (case filter (\<lambda>part. part \<noteq> [] \<and> part \<noteq> ''.'') (split_on (CHR ''/'') p) of
        [] \<Rightarrow> []
      | parts \<Rightarrow> last parts)"

definition rfind_dot :: "string \<Rightarrow> nat option" where
  "rfind_dot s =
     (if CHR ''.'' \<in> set s
      then Some (length s - Suc (length (takeWhile (\<lambda>c. c \<noteq> CHR ''.'') (rev s))))
      else None)"

definition suffix :: "string \<Rightarrow> string" where
  "suffix p =
     (let nm = path_name p
      in case rfind_dot nm of
           None \<Rightarrow> []
         | Some i \<Rightarrow> if 0 < i \<and> Suc i < length nm then drop i nm else [])"

text \<open>
  \<open>urlparse(url).scheme\<close>: the text before the first colon, in lower case, when it
  starts with a letter and holds only letters, digits, \<open>+\<close>, \<open>-\<close> and \<open>.\<close>; empty
  otherwise.
\<close>

definition scheme_char :: "char \<Rightarrow> bool" where
  "scheme_char c = (c \<in> set ''abcdefghijklmnopqrstuvwxyzABCDEFGHIJKLMNOPQRSTUVWXYZ0123456789+-.'')"

definition letter :: "char \<Rightarrow> bool" where
  "letter c = (c \<in> set ''abcdefghijklmnopqrstuvwxyzABCDEFGHIJKLMNOPQRSTUVWXYZ'')"

definition url_scheme :: "string \<Rightarrow> string" where
  "url_scheme url =
     (let s = takeWhile (\<lambda>c. c \<noteq> CHR '':'') url
      in if length s < length url \<and> s \<noteq> [] \<and> letter (hd s) \<and> list_all scheme_char s
         then lower s else [])"

definition startswith :: "string \<Rightarrow> string \<Rightarrow> bool" where
  "startswith s pre = (take (length pre) s = pre)"

definition load_from_url :: "world \<Rightarrow> string \<Rightarrow> (error + document list) \<times> access list" where
  "load_from_url w url =
     (if url = [] then (Inl (ValueError EmptyUrl), [])
      else if url_scheme url \<noteq> ''http'' \<and> url_scheme url \<noteq> ''https''
      then (Inl (ValueError (UnsupportedScheme (url_scheme url))), [])
      else case web_load w url of
             Inl exc \<Rightarrow> (Inl (RuntimeError (UrlLoad url) exc), [FetchUrl url])
           | Inr docs \<Rightarrow> (Inr docs, [FetchUrl url]))"

definition load_from_pdf_dir :: "world \<Rightarrow> string \<Rightarrow> (error + document list) \<times> access list" where
  "load_from_pdf_dir w directory =
     (if directory = [] then (Inl (ValueError EmptyDirectory), [])
      else if \<not> path_exists w directory
      then (Inl (ValueError (DirectoryMissing directory)), [Exists directory])
      else if \<not> path_is_dir w directory
      then (Inl (ValueError (NotADirectory directory)), [Exists directory, IsDir directory])
      else case pdf_dir_load w directory of
             Inl exc \<Rightarrow>
               (Inl (RuntimeError (PdfDirLoad directory) exc),
                [Exists directory, IsDir directory, ReadPdfDir directory])
           | Inr docs \<Rightarrow> (Inr docs, [Exists directory, IsDir directory, ReadPdfDir directory]))"

definition load_from_txt :: "world \<Rightarrow> string \<Rightarrow> (error + document list) \<times> access list" where
  "load_from_txt w file_path =
     (if file_path = [] then (Inl (ValueError EmptyFilePath), [])
      else if \<not> path_exists w file_path
      then (Inl (ValueError (FileMissing file_path)), [Exists file_path])
      else if \<not> path_is_file w file_path
      then (Inl (ValueError (NotAFile file_path)), [Exists file_path, IsFile file_path])
      else if lower (suffix file_path) \<noteq> ''.txt''
      then (Inl (ValueError (UnsupportedTxtSuffix (suffix file_path))),
            [Exists file_path, IsFile file_path])
      else case text_load w file_path of
             Inl exc \<Rightarrow>
               (Inl (RuntimeError (TxtLoad file_path) exc),
                [Exists file_path, IsFile file_path, ReadText file_path])
           | Inr docs \<Rightarrow> (Inr docs, [Exists file_path, IsFile file_path, ReadText file_path]))"

text \<open>
  The loop of \<open>load_documents\<close> over the sources, with the documents gathered and the
  accesses made so far. A source is text here, so the falsy sources are the empty
  strings. \<open>docs.extend(loaded_docs)\<close> runs only for a non-empty result.
\<close>

definition extend :: "document list \<Rightarrow> document list \<Rightarrow> document list" where
  "extend docs loaded_docs = (if loaded_docs \<noteq> [] then docs @ loaded_docs else docs)"

fun load_loop ::
  "world \<Rightarrow> string list \<Rightarrow> document list \<Rightarrow> access list \<Rightarrow> (error + document list) \<times> access list" where
  "load_loop w [] docs tr = (Inr docs, tr)"
| "load_loop w (source # rest) docs tr =
     (if source = [] then load_loop w rest docs tr
      else if startswith source ''http://'' \<or> startswith source ''https://''
      then (case load_from_url w source of
              (Inl e, t) \<Rightarrow> (Inl e, tr @ t)
            | (Inr loaded_docs, t) \<Rightarrow> load_loop w rest (extend docs loaded_docs) (tr @ t))
      else if \<not> path_exists w source
      then (Inl (ValueError (SourceMissing source)), tr @ [Exists source])
      else if path_is_dir w source
      then (case load_from_pdf_dir w source of
              (Inl e, t) \<Rightarrow> (Inl e, tr @ [Exists source, IsDir source] @ t)
            | (Inr loaded_docs, t) \<Rightarrow>
                load_loop w rest (extend docs loaded_docs) (tr @ [Exists source, IsDir source] @ t))
      else if lower (suffix source) = ''.txt''
      then (case load_from_txt w source of
              (Inl e, t) \<Rightarrow> (Inl e, tr @ [Exists source, IsDir source] @ t)
            | (Inr loaded_docs, t) \<Rightarrow>
                load_loop w rest (extend docs loaded_docs) (tr @ [Exists source, IsDir source] @ t))
      else (Inl (ValueError (UnsupportedFileType (lower (suffix source)) source)),
            tr @ [Exists source, IsDir source]))"

definition load_documents :: "world \<Rightarrow> string list \<Rightarrow> (error + document list) \<times> access list" where
  "load_documents w sources =
     (if sources = [] then (Inl (ValueError EmptySources), [])
      else load_loop w sources [] [])"

text \<open>
  The processor object: its two sizes and the splitter built from them by the text
  splitting library. \<open>split_documents\<close> answers the empty list itself and hands every
  other input to the splitter.
\<close>

record document_processor =
  chunk_size :: int
  chunk_overlap :: int
  splitter :: "document list \<Rightarrow> document list"

definition DocumentProcessor ::
  "(int \<Rightarrow> int \<Rightarrow> document list \<Rightarrow> document list) \<Rightarrow> int \<Rightarrow> int \<Rightarrow> document_processor" where
  "DocumentProcessor text_splitter sz ov =
     \<lparr>chunk_size = sz, chunk_overlap = ov, splitter = text_splitter sz ov\<rparr>"

definition split_documents :: "document_processor \<Rightarrow> document list \<Rightarrow> document list" where
  "split_documents self documents = (if documents = [] then [] else splitter self documents)"

definition process_url ::
  "document_processor \<Rightarrow> world \<Rightarrow> string list \<Rightarrow> (error + document list) \<times> access list" where
  "process_url self w urls =
     (case load_documents w urls of
        (Inl e, t) \<Rightarrow> (Inl e, t)
      | (Inr docs, t) \<Rightarrow> (Inr (split_documents self docs), t))"

text \<open>
  A small world for evaluation: one markdown file, one text file and one directory.
\<close>

definition demo_world :: world where
  "demo_world =
     \<lparr>path_exists = (\<lambda>p. p \<in> set [''readme.md'', ''notes.TXT'', ''papers'']),
      path_is_dir = (\<lambda>p. p = ''papers''),
      path_is_file = (\<lambda>p. p \<in> set [''readme.md'', ''notes.TXT'']),
      web_load = (\<lambda>u. Inl ''unreachable''),
      pdf_dir_load = (\<lambda>p. Inr []),
      text_load = (\<lambda>p. Inr [\<lparr>page_content = ''some notes'', metadata = [''source'' \<mapsto> p]\<rparr>])\<rparr>"

section \<open>Properties of the vector store\<close>

lemma create_calls_failed_keeps:
  "list_all isl (fst (create_calls be cs vs)) \<Longrightarrow> snd (create_calls be cs vs) = vs"
proof (induction cs arbitrary: vs)
  case Nil
  then show ?case by simp
next
  case (Cons c cs)
  obtain documents k where c: "c = (documents, k)" by (cases c)
  obtain r vs' where cr: "create_retriever be documents k vs = (r, vs')"
    by (cases "create_retriever be documents k vs")
  obtain rs vs'' where cc: "create_calls be cs vs' = (rs, vs'')"
    by (cases "create_calls be cs vs'")
  from Cons.prems c cr cc have "isl r" and rest: "list_all isl rs" by simp_all
  with cr have "vs' = vs"
    by (auto simp: create_retriever_def split: if_splits sum.splits)
  with Cons.IH [of vs'] cc rest have "vs'' = vs" by simp
  with c cr cc show ?case by simp
qed

text \<open>
  Claim C7. On an instance on which no \<open>create_retriever\<close> call has succeeded yet
  (a fresh instance after any number of failed calls), \<open>get_retriever\<close> and
  \<open>retrieve\<close>, for every query and \<open>k\<close>, fail with the not-initialized error; once a
  \<open>create_retriever\<close> call has succeeded, \<open>get_retriever\<close> returns the retriever and
  \<open>retrieve\<close> does not fail with that error.
\<close>

theorem not_initialized_until_created:
  "(list_all isl (fst (create_calls be cs VectorStore_init)) \<longrightarrow>
      get_retriever (snd (create_calls be cs VectorStore_init)) = Inl (ValueError NotInitialized)
    \<and> fst (retrieve be q k (snd (create_calls be cs VectorStore_init))) = Inl (ValueError NotInitialized))
   \<and> (create_retriever be documents d vs = (Inr (), vs') \<longrightarrow>
      (\<exists>r. get_retriever vs' = Inr r)
    \<and> fst (retrieve be q k vs') \<noteq> Inl (ValueError NotInitialized))"
proof (intro conjI impI)
  assume failed: "list_all isl (fst (create_calls be cs VectorStore_init))"
  then have "snd (create_calls be cs VectorStore_init) = (VectorStore_init :: 'a vector_store)"
    by (rule create_calls_failed_keeps)
  then have none: "retriever (snd (create_calls be cs VectorStore_init)) = None"
    by (simp add: VectorStore_init_def)
  show "get_retriever (snd (create_calls be cs VectorStore_init)) = Inl (ValueError NotInitialized)"
    unfolding get_retriever_def none by simp
  show "fst (retrieve be q k (snd (create_calls be cs VectorStore_init))) = Inl (ValueError NotInitialized)"
    unfolding retrieve_def none by simp
next
  assume ok: "create_retriever be documents d vs = (Inr (), vs')"
  then obtain r where r: "retriever vs' = Some r"
    by (auto simp: create_retriever_def split: if_splits sum.splits)
  show "\<exists>r. get_retriever vs' = Inr r"
    using r by (simp add: get_retriever_def)
  show "fst (retrieve be q k vs') \<noteq> Inl (ValueError NotInitialized)"
    using r by (simp add: retrieve_def lift_external_def Let_def split: sum.splits)
qed

theorem not_initialized_until_created_witness:
  "list_all isl (fst (create_calls list_backend [([], 4)] VectorStore_init))
   \<and> get_retriever (snd (create_calls list_backend [([], 4)] VectorStore_init))
       = Inl (ValueError NotInitialized)
   \<and> fst (retrieve list_backend ''capital'' 2 (snd (create_calls list_backend [([], 4)] VectorStore_init)))
       = Inl (ValueError NotInitialized)
   \<and> create_retriever list_backend [doc_paris] 4 VectorStore_init
       = (Inr (), \<lparr>vectorstore = Some [doc_paris],
                   retriever = Some \<lparr>index = [doc_paris], search_k = 4\<rparr>\<rparr>)
   \<and> (\<exists>r. get_retriever \<lparr>vectorstore = Some [doc_paris],
                           retriever = Some \<lparr>index = [doc_paris], search_k = 4\<rparr>\<rparr> = Inr r)
   \<and> fst (retrieve list_backend ''capital'' 2
             \<lparr>vectorstore = Some [doc_paris],
              retriever = Some \<lparr>index = [doc_paris], search_k = 4\<rparr>\<rparr>)
       \<noteq> Inl (ValueError NotInitialized)"
proof -
  have failed: "list_all isl (fst (create_calls list_backend [([], 4)] VectorStore_init))"
    by (simp add: create_retriever_def)
  have ok: "create_retriever list_backend [doc_paris] 4 VectorStore_init
              = (Inr (), \<lparr>vectorstore = Some [doc_paris],
                          retriever = Some \<lparr>index = [doc_paris], search_k = 4\<rparr>\<rparr>)"
    by (simp add: create_retriever_def list_backend_def VectorStore_init_def)
  from not_initialized_until_created
         [where be = list_backend and cs = "[([], 4)]" and q = "''capital''" and k = 2
            and documents = "[doc_paris]" and d = 4 and vs = VectorStore_init
            and vs' = "\<lparr>vectorstore = Some [doc_paris],
                          retriever = Some \<lparr>index = [doc_paris], search_k = 4\<rparr>\<rparr>"]
       failed ok
  show ?thesis by blast
qed

text \<open>
  Claim C3 as stated: after \<open>create_retriever(docs, k=d)\<close> has succeeded, a call
  \<open>retrieve(query, k)\<close> leaves the stored default result count at \<open>d\<close>. It fails for
  \<open>d = 4\<close> and \<open>k = 2\<close>: \<open>retrieve\<close> assigns \<open>search_kwargs["k"] = k\<close> on the retriever
  object of the store, and nothing restores the old value.
\<close>

theorem retrieve_keeps_default_counterexample:
  "fst (create_retriever list_backend [doc_paris] 4 VectorStore_init) = Inr ()
   \<and> stored_k (snd (create_retriever list_backend [doc_paris] 4 VectorStore_init)) = Some 4
   \<and> stored_k (snd (retrieve list_backend ''capital'' 2
                     (snd (create_retriever list_backend [doc_paris] 4 VectorStore_init))))
       \<noteq> Some 4"
  by (simp add: create_retriever_def retrieve_def stored_k_def list_backend_def
      VectorStore_init_def Let_def)

text \<open>
  Claim C3, amended. After \<open>create_retriever(docs, k=d)\<close> has succeeded the stored
  default is \<open>d\<close>; a call \<open>retrieve(query, k)\<close> searches with \<open>k\<close> and leaves \<open>k\<close> as
  the stored default, also for the retriever that \<open>get_retriever\<close> hands out
  afterwards, whether or not the search itself raised.
\<close>

theorem retrieve_overwrites_default:
  "create_retriever be documents d vs = (Inr (), vs') \<Longrightarrow>
     stored_k vs' = Some d
   \<and> stored_k (snd (retrieve be q k vs')) = Some k
   \<and> (\<exists>r. get_retriever (snd (retrieve be q k vs')) = Inr r \<and> search_k r = k)
   \<and> (\<exists>r. retriever vs' = Some r
          \<and> fst (retrieve be q k vs') = lift_external (relevant_documents be (index r) q k))"
  by (auto simp: create_retriever_def retrieve_def stored_k_def get_retriever_def Let_def
      split: if_splits sum.splits)

theorem retrieve_overwrites_default_witness:
  "create_retriever list_backend [doc_paris] 4 VectorStore_init
     = (Inr (), \<lparr>vectorstore = Some [doc_paris],
                 retriever = Some \<lparr>index = [doc_paris], search_k = 4\<rparr>\<rparr>)
   \<and> stored_k \<lparr>vectorstore = Some [doc_paris],
               retriever = Some \<lparr>index = [doc_paris], search_k = 4\<rparr>\<rparr> = Some 4
   \<and> stored_k (snd (retrieve list_backend ''capital'' 2
                     \<lparr>vectorstore = Some [doc_paris],
                      retriever = Some \<lparr>index = [doc_paris], search_k = 4\<rparr>\<rparr>)) = Some 2"
proof -
  have ok: "create_retriever list_backend [doc_paris] 4 VectorStore_init
              = (Inr (), \<lparr>vectorstore = Some [doc_paris],
                          retriever = Some \<lparr>index = [doc_paris], search_k = 4\<rparr>\<rparr>)"
    by (simp add: create_retriever_def list_backend_def VectorStore_init_def)
  from retrieve_overwrites_default [OF ok, of "''capital''" 2] ok
  show ?thesis by simp
qed

section \<open>Properties of the nodes\<close>

declare str_nat.simps [simp del]
declare run_from.simps [simp del]

text \<open>
  Claim C2. The generate stage is to return a new state with the response filled in
  and \<open>query\<close> and \<open>retrieved_docs\<close> carried over. \<open>generate_answer\<close> of nodes.py never
  returns a state: once the model has answered it reads \<open>state.documents\<close>, an
  attribute the state class does not have, and raises \<open>AttributeError\<close>; when the model
  raises, that error propagates.
\<close>

theorem nodes_generate_answer_raises:
  "nodes_generate_answer (\<lambda>prompt. Inr answer) s = Inl (AttributeError ''documents'')
   \<and> isl (nodes_generate_answer llm s)"
  by (simp add: nodes_generate_answer_def getattr_state_def Let_def split: sum.splits)

text \<open>
  The agentic node of reactnode.py does carry both fields over: whenever it returns a
  state, \<open>query\<close> and \<open>retrieved_docs\<close> are those of the input.
\<close>

lemma react_generate_answer_frame:
  "fst (react_generate_answer create_agent retr wiki self s) = Inr st \<Longrightarrow>
     query st = query s \<and> retrieved_docs st = retrieved_docs s"
  by (auto simp: react_generate_answer_def RAGState_def Let_def split: sum.splits)

text \<open>
  Claim C4. The retrieve stage is to fill \<open>retrieved_docs\<close> and leave \<open>response\<close> as it
  was. \<open>retrieve_docs\<close> of nodes.py builds the new state without a \<open>response\<close> argument,
  so the result's response is the class default, the empty string, whatever the
  input's response was: a state with response \<open>draft\<close> comes back with an empty one.
\<close>

theorem nodes_retrieve_docs_resets_response:
  "nodes_retrieve_docs (\<lambda>q. Inr docs) s
     = Inr \<lparr>query = query s, retrieved_docs = docs, response = []\<rparr>
   \<and> nodes_retrieve_docs (\<lambda>q. Inr [doc_paris])
        \<lparr>query = ''capital'', retrieved_docs = [], response = ''draft''\<rparr>
       = Inr \<lparr>query = ''capital'', retrieved_docs = [doc_paris], response = []\<rparr>"
  by (simp add: nodes_retrieve_docs_def RAGState_def)

text \<open>
  \<open>retrieve_docs\<close> of reactnode.py passes \<open>response=state.response\<close> and so keeps it.
\<close>

lemma react_retrieve_docs_frame:
  "react_retrieve_docs retr s = Inr st \<Longrightarrow>
     response st = response s \<and> query st = query s \<and> retr (query s) = Inr (retrieved_docs st)"
  by (auto simp: react_retrieve_docs_def RAGState_def split: sum.splits)

text \<open>
  Claim C6 as stated: when the agent produces no message, the response is, up to
  letter case, the text \<open>could not generate response\<close>. For an agent that returns an
  empty message list the node returns a state, but its response is
  \<open>Could not generate response.\<close>, which ends in a full stop; in lower case it is not
  the claimed text.
\<close>

theorem fallback_text_counterexample:
  "fst (react_generate_answer (\<lambda>tools prompt q. Inr (ResultDict (Some [])))
          (\<lambda>q. Inr []) (\<lambda>q. Inr [])
          \<lparr>agent_of = None\<rparr> \<lparr>query = ''hi'', retrieved_docs = [], response = []\<rparr>)
     = Inr \<lparr>query = ''hi'', retrieved_docs = [], response = ''Could not generate response.''\<rparr>
   \<and> lower ''Could not generate response.'' \<noteq> ''could not generate response''"
  by (simp add: react_generate_answer_def get_agent_def result_messages_def RAGState_def py_or_def
      lower_def lower_char_def)

text \<open>
  Claim C6, amended. For every input state, if the agent in use (the one kept by the
  node, or the one built on first use) returns a result without any message, the
  generate stage does not raise: it returns a new state with the input's \<open>query\<close> and
  \<open>retrieved_docs\<close> whose response is the fixed text \<open>Could not generate response.\<close>,
  in lower case \<open>could not generate response.\<close> with its full stop.
\<close>

theorem no_message_fallback:
  "get_agent create_agent retr wiki self (query s) = Inr result \<Longrightarrow>
   result_messages result = [] \<Longrightarrow>
     fst (react_generate_answer create_agent retr wiki self s)
       = Inr \<lparr>query = query s, retrieved_docs = retrieved_docs s,
              response = ''Could not generate response.''\<rparr>
   \<and> lower ''Could not generate response.'' = ''could not generate response.''"
  by (simp add: react_generate_answer_def RAGState_def py_or_def lower_def lower_char_def)

theorem no_message_fallback_witness:
  "get_agent (\<lambda>tools prompt q. Inr (ResultDict None)) (\<lambda>q. Inr []) (\<lambda>q. Inr [])
       \<lparr>agent_of = None\<rparr>
       (query \<lparr>query = ''hi'', retrieved_docs = [doc_paris], response = []\<rparr>)
     = Inr (ResultDict None)
   \<and> result_messages (ResultDict None) = []
   \<and> fst (react_generate_answer (\<lambda>tools prompt q. Inr (ResultDict None))
            (\<lambda>q. Inr []) (\<lambda>q. Inr [])
            \<lparr>agent_of = None\<rparr> \<lparr>query = ''hi'', retrieved_docs = [doc_paris], response = []\<rparr>)
       = Inr \<lparr>query = ''hi'', retrieved_docs = [doc_paris],
              response = ''Could not generate response.''\<rparr>"
proof -
  have a: "get_agent (\<lambda>tools prompt q. Inr (ResultDict None)) (\<lambda>q. Inr []) (\<lambda>q. Inr [])
             \<lparr>agent_of = None\<rparr>
             (query \<lparr>query = ''hi'', retrieved_docs = [doc_paris], response = []\<rparr>)
           = Inr (ResultDict None)"
    by (simp add: get_agent_def)
  have m: "result_messages (ResultDict None) = []"
    by (simp add: result_messages_def)
  from no_message_fallback [OF a m] a m show ?thesis by simp
qed

text \<open>
  The loop of the retriever tool, started at \<open>i\<close> with the blocks \<open>acc\<close> already made,
  appends block \<open>i + j\<close> for the \<open>j\<close>-th document.
\<close>

lemma merge_loop_blocks:
  "merge_loop i ds acc = acc @ map (\<lambda>j. doc_block (i + j) (ds ! j)) [0..<length ds]"
proof (induction ds arbitrary: i acc)
  case Nil
  show ?case by simp
next
  case (Cons d ds)
  have "map (\<lambda>j. doc_block (i + j) ((d # ds) ! j)) [0..<length (d # ds)]
          = doc_block i d # map (\<lambda>j. doc_block (Suc i + j) (ds ! j)) [0..<length ds]"
    by (simp add: map_upt_Suc del: upt_Suc)
  with Cons.IH [of "Suc i" "acc @ [doc_block i d]"] show ?case by simp
qed

lemma merge_loop_take8: "merge_loop (Suc 0) (take 8 docs) [] = tool_blocks_spec docs"
proof -
  have "map (\<lambda>j. doc_block (Suc 0 + j) (take 8 docs ! j)) [0..<length (take 8 docs)]
          = map (\<lambda>j. doc_block (Suc j) (docs ! j)) [0..<min 8 (length docs)]"
    by (rule map_cong) (simp_all add: min.commute)
  then show ?thesis
    by (simp add: merge_loop_blocks tool_blocks_spec_def doc_block_def)
qed

text \<open>
  Claim C8. For every query on which the retriever returns, the retriever tool
  returns the text \<open>No documents found.\<close> when there are no results, and otherwise the
  blocks of the first eight results at most, joined by an empty line, block \<open>i\<close> being
  \<open>[i] title\<close>, a line break and the content of result \<open>i\<close>. The title is the
  metadata's \<open>title\<close>, else its \<open>source\<close>, else \<open>doc_i\<close>.
\<close>

theorem retriever_tool_formats:
  "retr q = Inr docs \<Longrightarrow>
     retriever_tool_fn retr q
       = Inr (if docs = [] then ''No documents found.''
              else join_str (nl @ nl) (tool_blocks_spec docs))
   \<and> length (tool_blocks_spec docs) = min 8 (length docs)"
  by (simp add: retriever_tool_fn_def merge_loop_take8) (simp add: tool_blocks_spec_def)

theorem retriever_tool_formats_witness:
  "(\<lambda>q. Inr [doc_paris, doc_tokyo]) ''capital'' = (Inr [doc_paris, doc_tokyo] :: string + document list)
   \<and> retriever_tool_fn (\<lambda>q. Inr [doc_paris, doc_tokyo]) ''capital''
       = Inr ''[1] doc_1\<newline>Paris is the capital of France.\<newline>\<newline>[2] Japan\<newline>Tokyo is the capital of Japan.''
   \<and> retriever_tool_fn (\<lambda>q. Inr []) ''capital'' = Inr ''No documents found.''"
  using retriever_tool_formats [of "\<lambda>q. Inr [doc_paris, doc_tokyo]" "''capital''" "[doc_paris, doc_tokyo]"]
    retriever_tool_formats [of "\<lambda>q. Inr []" "''capital''" "[]"]
  by (simp add: tool_blocks_spec_def doc_paris_def doc_tokyo_def doc_title_def py_or_def nl_def
      str_nat.simps digit_char_def upt_rec)

section \<open>Properties of the graph builder\<close>

text \<open>
  The graph model runs a well-wired graph: two nodes under two names, wired
  \<open>START\<close>, first, second, \<open>END\<close>, compile, and invoking the result applies the first
  function and then the second.
\<close>

lemma well_wired_graph_runs_both:
  "(case add_node pol ''retriever'' f StateGraph of
      Inl e \<Rightarrow> None
    | Inr b1 \<Rightarrow>
        (case add_node pol ''responder'' h b1 of
           Inl e \<Rightarrow> None
         | Inr b2 \<Rightarrow>
             (case compile (add_edge ''responder'' END (add_edge ''retriever'' ''responder''
                             (set_entry_point ''retriever'' b2))) of
                Inl e \<Rightarrow> None
              | Inr g \<Rightarrow> Some (invoke g s))))
   = Some (case f s of Inl e \<Rightarrow> Inl e | Inr s' \<Rightarrow> h s')"
  by (simp add: add_node_def StateGraph_def compile_def set_entry_point_def add_edge_def
      START_def END_def invoke_def successors_def run_from.simps split: sum.splits)

text \<open>
  Claim C1. \<open>run(q)\<close> is to execute retrieve and then generate and return the final
  state. \<open>build\<close> registers both node functions under the one name \<open>retriever\<close> and
  wires edges through a node \<open>responder\<close> that it never adds. So on a fresh builder
  \<open>run\<close> returns no state for any query, and no graph is kept: the library rejects
  the second \<open>add_node\<close>; and were a second entry of one name replaced or ignored
  instead, \<open>compile\<close> would reject the edge from the unknown node \<open>responder\<close>.
\<close>

theorem run_never_returns_a_state:
  "isl (fst (run pol (GraphBuilder cls) q))
   \<and> graph (snd (run pol (GraphBuilder cls) q)) = None
   \<and> fst (run Reject (GraphBuilder cls) q) = Inl (ValueError (GraphError ''Node already present''))"
  by (cases pol)
     (simp_all add: run_def build_def GraphBuilder_def add_node_def StateGraph_def compile_def
        set_entry_point_def add_edge_def START_def END_def Let_def)

section \<open>Properties of the document processor\<close>

text \<open>
  Claim C9. For every path to an existing regular file whose suffix, in lower case,
  is not \<open>.txt\<close>, \<open>load_from_txt\<close> fails with a \<open>ValueError\<close> and has made path tests
  only: the file is never read. For a non-empty path the error is the one of the
  suffix test, after one existence test and one file test.
\<close>

theorem load_from_txt_rejects_other_suffix:
  "path_exists w p \<Longrightarrow> path_is_file w p \<Longrightarrow> lower (suffix p) \<noteq> ''.txt'' \<Longrightarrow>
     (\<exists>why. fst (load_from_txt w p) = Inl (ValueError why))
   \<and> list_all is_path_test (snd (load_from_txt w p))
   \<and> ReadText p \<notin> set (snd (load_from_txt w p))
   \<and> (p \<noteq> [] \<longrightarrow> load_from_txt w p
          = (Inl (ValueError (UnsupportedTxtSuffix (suffix p))), [Exists p, IsFile p]))"
  by (simp add: load_from_txt_def is_path_test_def)

theorem load_from_txt_rejects_other_suffix_witness:
  "path_exists demo_world ''readme.md''
   \<and> path_is_file demo_world ''readme.md''
   \<and> lower (suffix ''readme.md'') \<noteq> ''.txt''
   \<and> load_from_txt demo_world ''readme.md''
       = (Inl (ValueError (UnsupportedTxtSuffix ''.md'')), [Exists ''readme.md'', IsFile ''readme.md''])"
proof -
  have e: "path_exists demo_world ''readme.md''" by (simp add: demo_world_def)
  have f: "path_is_file demo_world ''readme.md''" by (simp add: demo_world_def)
  have s: "suffix ''readme.md'' = ''.md''" by code_simp
  have l: "lower (suffix ''readme.md'') \<noteq> ''.txt''" by code_simp
  from load_from_txt_rejects_other_suffix [OF e f l] e f l s show ?thesis by simp
qed

text \<open>The loop skips a source that is the empty string without touching anything.\<close>

lemma load_loop_all_empty:
  "list_all (\<lambda>s. s = []) sources \<Longrightarrow> load_loop w sources docs tr = (Inr docs, tr)"
  by (induction sources) simp_all

text \<open>
  Claim C10. For every non-empty sequence of sources in which every entry is falsy
  (the empty string), \<open>load_documents\<close> raises nothing and returns the empty list,
  and it makes no access at all: no path test, no load.
\<close>

theorem load_documents_all_falsy:
  "sources \<noteq> [] \<Longrightarrow> list_all (\<lambda>s. s = []) sources \<Longrightarrow>
     load_documents w sources = (Inr [], [])"
  by (simp add: load_documents_def load_loop_all_empty)

theorem load_documents_all_falsy_witness:
  "['''', ''''] \<noteq> ([] :: string list)
   \<and> list_all (\<lambda>s. s = []) ['''', '''']
   \<and> load_documents demo_world ['''', ''''] = (Inr [], [])"
  using load_documents_all_falsy [of "['''', '''']" demo_world] by simp

end
